theory Spec2Isabelle
  imports Main "HOL-Library.Sublist"
begin

section \<open>The component showcase: grid placement\<close>

text \<open>
  \<^verbatim>\<open>pic_component_showcase\<close> builds one drawing \<^verbatim>\<open>c\<close>. Every \<^verbatim>\<open>c << d\<close> inserts a
  reference to the drawable \<^verbatim>\<open>d\<close> at the origin and \<^verbatim>\<open>ref.move((x, y))\<close> translates it,
  so the reference ends at \<open>(x, y)\<close>. The geometry of a drawable is the layout library's
  business; a component is known here by the local variable that holds it, a caption by the
  arguments of \<^verbatim>\<open>gf.components.text\<close> (text, size, layer).
\<close>

datatype drawable =
    Component string
  | Text string int "int \<times> int"

record placement =
  target :: drawable
  pos :: "int \<times> int"

text \<open>
  The local variables of the enclosing function: the grid parameters, which are never
  assigned again, and the state the closure mutates (\<^verbatim>\<open>nonlocal row, col\<close>, and the
  drawing \<^verbatim>\<open>c\<close>). Python integers are unbounded, so all of them are \<^typ>\<open>int\<close>.
\<close>

record grid =
  x_spacing :: int
  y_spacing :: int
  x_start :: int
  y_start :: int
  max_cols :: int

record layout =
  c_refs :: "placement list"
  row :: int
  col :: int

definition showcase_grid :: grid where
  "showcase_grid =
     \<lparr>x_spacing = 300, y_spacing = 100, x_start = 0, y_start = 0, max_cols = 4\<rparr>"

definition fresh :: layout where
  "fresh = \<lparr>c_refs = [], row = 0, col = 0\<rparr>"

text \<open>\<^verbatim>\<open>ref = c << d; ref.move(p)\<close>: the new reference is the last one of the drawing.\<close>

definition insert_moved :: "drawable \<Rightarrow> int \<times> int \<Rightarrow> placement list \<Rightarrow> placement list" where
  "insert_moved d p refs = refs @ [\<lparr>target = d, pos = p\<rparr>]"

text \<open>The closure \<^verbatim>\<open>add_component_to_grid(component, label)\<close>, lines 38 to 60.\<close>

definition add_component_to_grid :: "grid \<Rightarrow> drawable \<Rightarrow> string \<Rightarrow> layout \<Rightarrow> layout" where
  "add_component_to_grid g component label s =
     (let x_pos = x_start g + col s * x_spacing g;
          y_pos = y_start g - row s * y_spacing g;
          c1 = insert_moved component (x_pos, y_pos) (c_refs s);
          c2 = insert_moved (Text label 10 (1, 0)) (x_pos - 50, y_pos - 40) c1;
          col1 = col s + 1
      in if col1 \<ge> max_cols g
         then s\<lparr>c_refs := c2, row := row s + 1, col := 0\<rparr>
         else s\<lparr>c_refs := c2, col := col1\<rparr>)"

text \<open>The forced row break before the spiral, lines 228 to 230.\<close>

definition force_new_row :: "layout \<Rightarrow> layout" where
  "force_new_row s = (if col s \<noteq> 0 then s\<lparr>row := row s + 1, col := 0\<rparr> else s)"

text \<open>The spiral and its caption, lines 232 to 244; the cursor is not advanced.\<close>

definition place_spiral :: "grid \<Rightarrow> layout \<Rightarrow> layout" where
  "place_spiral g s =
     (let x_pos = x_start g + col s * x_spacing g;
          y_pos = y_start g - row s * y_spacing g;
          c1 = insert_moved (Component ''spiral'') (x_pos, y_pos) (c_refs s);
          c2 = insert_moved (Text ''Spiral'' 10 (1, 0)) (x_pos - 50, y_pos - 40) c1
      in s\<lparr>c_refs := c2\<rparr>)"

text \<open>The thirty calls of the closure, in the order of the source (lines 66 to 224).\<close>

definition catalogue :: "(drawable \<times> string) list" where
  "catalogue =
    [(Component ''detector'', ''Ge Photodetector''),
     (Component ''heater_metal'', ''Metal Heater''),
     (Component ''modulator_pn'', ''PN Modulator''),
     (Component ''modulator_pin'', ''PIN Modulator''),
     (Component ''disk_heater'', ''Disk Heater''),
     (Component ''awg'', ''AWG 10x4''),
     (Component ''ring_single'', ''Ring Single''),
     (Component ''ring_double'', ''Ring Double''),
     (Component ''ring_crow'', ''CROW (3 rings)''),
     (Component ''dbr'', ''DBR''),
     (Component ''dbr_tapered'', ''DBR Tapered''),
     (Component ''cavity'', ''Cavity''),
     (Component ''mmi1x2'', ''MMI 1x2''),
     (Component ''mmi2x2'', ''MMI 2x2''),
     (Component ''mmi3x3'', ''MMI 3x3''),
     (Component ''mmi4x4'', ''MMI 4x4''),
     (Component ''coupler_dc'', ''DC Coupler''),
     (Component ''coupler_sym'', ''DC Symmetric''),
     (Component ''coupler90'', ''Coupler 90deg''),
     (Component ''coupler_adiabatic'', ''Adiabatic Coupler''),
     (Component ''coupler_ring'', ''Ring Coupler''),
     (Component ''splitter_tree'', ''Splitter Tree 1x4''),
     (Component ''splitter_chain'', ''Splitter Chain''),
     (Component ''gc_te'', ''GC TE''),
     (Component ''gc_tm'', ''GC TM''),
     (Component ''gc_array'', ''GC Array (4)''),
     (Component ''mzi'', ''MZI''),
     (Component ''mzi_ps'', ''MZI Phase Shifter''),
     (Component ''edge_coupler'', ''Edge Coupler''),
     (Component ''psr'', ''PSR'')]"

text \<open>A run of consecutive calls of the closure, one per (component, label) pair.\<close>

fun place_all :: "grid \<Rightarrow> (drawable \<times> string) list \<Rightarrow> layout \<Rightarrow> layout" where
  "place_all g [] s = s"
| "place_all g (x # xs) s = place_all g xs (add_component_to_grid g (fst x) (snd x) s)"

definition pic_component_showcase :: layout where
  "pic_component_showcase =
     place_spiral showcase_grid (force_new_row (place_all showcase_grid catalogue fresh))"

text \<open>
  The two operations on the cursor, for statements about any interleaving of them.
\<close>

datatype cursor_op = Place drawable string | ForceNewRow

fun apply_op :: "grid \<Rightarrow> cursor_op \<Rightarrow> layout \<Rightarrow> layout" where
  "apply_op g (Place d l) s = add_component_to_grid g d l s"
| "apply_op g ForceNewRow s = force_new_row s"

fun run_ops :: "grid \<Rightarrow> cursor_op list \<Rightarrow> layout \<Rightarrow> layout" where
  "run_ops g [] s = s"
| "run_ops g (x # xs) s = run_ops g xs (apply_op g x s)"

text \<open>The invariant of the cursor, and the lexicographic order on grid cells.\<close>

definition cursor_inv :: "grid \<Rightarrow> layout \<Rightarrow> bool" where
  "cursor_inv g s \<longleftrightarrow> 0 \<le> col s \<and> col s < max_cols g"

definition cell_less :: "int \<times> int \<Rightarrow> int \<times> int \<Rightarrow> bool" where
  "cell_less a b \<longleftrightarrow> fst a < fst b \<or> (fst a = fst b \<and> snd a < snd b)"

definition cell_of :: "layout \<Rightarrow> int \<times> int" where
  "cell_of s = (row s, col s)"


section \<open>The structural dump: \<^verbatim>\<open>inspect_gds\<close>\<close>

subsection \<open>The loaded drawing\<close>

text \<open>
  The object graph that \<^verbatim>\<open>gdstk.read_gds\<close> returns. The dump only formats what it reads:
  an integer attribute is an \<^typ>\<open>int\<close>, a string attribute a \<^typ>\<open>string\<close>, and a float,
  tuple or array attribute is carried as the text that Python's \<^verbatim>\<open>str\<close> gives for it.
  An attribute that the source accesses without a test is a field. An attribute that the
  source probes with \<^verbatim>\<open>hasattr\<close> is optional, together with the attributes read only
  under that probe: \<^verbatim>\<open>layers\<close> with \<^verbatim>\<open>datatypes\<close> (otherwise \<^verbatim>\<open>layer\<close> with
  \<^verbatim>\<open>datatype\<close>), and \<^verbatim>\<open>columns\<close> with \<^verbatim>\<open>rows\<close> and \<^verbatim>\<open>spacing\<close>.
\<close>

type_synonym pytext = string

record polygon =
  polygon_layer :: int
  polygon_datatype :: int
  polygon_points :: pytext

datatype path_layering =
    Layers pytext pytext
  | Layer int int

record path =
  path_layering :: path_layering
  path_spine :: "pytext option"
  path_points :: "pytext option"

record label =
  label_layer :: int
  label_texttype :: int
  label_text :: string
  label_origin :: pytext

text \<open>
  \<^verbatim>\<open>ref.cell\<close>: no such attribute, the value \<^verbatim>\<open>None\<close>, or a cell object, of which
  only the name is read.
\<close>

datatype cell_attr = NoCellAttr | CellNone | CellObj string

record array_fields =
  columns :: int
  rows :: int
  spacing :: pytext

record reference =
  ref_cell :: cell_attr
  ref_origin :: pytext
  ref_rotation :: pytext
  ref_magnification :: pytext
  ref_x_reflection :: bool
  ref_array :: "array_fields option"

record cell =
  cell_name :: string
  polygons :: "polygon list"
  paths :: "path list"
  labels :: "label list"
  references :: "reference list"

record library =
  lib_name :: string
  cells :: "cell list"

subsection \<open>Formatting, as in an f-string\<close>

text \<open>\<^verbatim>\<open>str\<close> of an integer: decimal digits, with a minus sign below zero.\<close>

fun digits :: "nat \<Rightarrow> string" where
  "digits n =
     (if n < 10 then [''0123456789'' ! n]
      else digits (n div 10) @ [''0123456789'' ! (n mod 10)])"

declare digits.simps [simp del]

definition str_int :: "int \<Rightarrow> string" where
  "str_int i = (if i < 0 then CHR ''-'' # digits (nat (- i)) else digits (nat i))"

definition str_bool :: "bool \<Rightarrow> string" where
  "str_bool b = (if b then ''True'' else ''False'')"

text \<open>
  \<^verbatim>\<open>repr\<close> of a string, which is what a list shows of its elements. A \<^typ>\<open>char\<close> stands
  for a code point below 256. The quote is the single quote, unless the string has a single
  quote and no double quote; the quote and the backslash are escaped, tab, newline and
  carriage return have their letters, and any other code point that is not printable is
  written as a backslash, \<open>x\<close> and two hexadecimal digits.
\<close>

definition hex2 :: "nat \<Rightarrow> string" where
  "hex2 n = [''0123456789abcdef'' ! (n div 16 mod 16), ''0123456789abcdef'' ! (n mod 16)]"

definition printable :: "char \<Rightarrow> bool" where
  "printable ch =
     (let n = (of_char ch :: nat)
      in (32 \<le> n \<and> n < 127) \<or> (161 \<le> n \<and> n \<noteq> 173))"

definition repr_char :: "char \<Rightarrow> char \<Rightarrow> string" where
  "repr_char q ch =
     (if ch = q \<or> ch = CHR 0x5C then [CHR 0x5C, ch]
      else if ch = CHR 0x09 then [CHR 0x5C, CHR ''t'']
      else if ch = CHR 0x0A then [CHR 0x5C, CHR ''n'']
      else if ch = CHR 0x0D then [CHR 0x5C, CHR ''r'']
      else if printable ch then [ch]
      else [CHR 0x5C, CHR ''x''] @ hex2 (of_char ch))"

definition repr_str :: "string \<Rightarrow> string" where
  "repr_str s =
     (let q = (if CHR 0x27 \<in> set s \<and> CHR 0x22 \<notin> set s then CHR 0x22 else CHR 0x27)
      in q # concat (map (repr_char q) s) @ [q])"

fun join :: "string \<Rightarrow> string list \<Rightarrow> string" where
  "join sep [] = []"
| "join sep [x] = x"
| "join sep (x # y # ys) = x @ sep @ join sep (y # ys)"

definition repr_str_list :: "string list \<Rightarrow> string" where
  "repr_str_list xs = ''['' @ join '', '' (map repr_str xs) @ '']''"

subsection \<open>Files, standard output and failures\<close>

text \<open>
  What the dump can touch. A file is the list of the chunks printed into it, one per
  \<^verbatim>\<open>print\<close> call (each followed by a newline in the real file). \<open>handles\<close> lists the
  file objects made by \<^verbatim>\<open>open\<close>, each with its path and whether it is still open.
  \<open>quota\<close> models a write that fails: \<open>Some n\<close> lets \<open>n\<close> more \<^verbatim>\<open>print\<close> calls
  succeed and the next one raise; \<open>None\<close> never fails. \<open>openable\<close> tells where
  \<^verbatim>\<open>open(path, 'w')\<close> succeeds, and \<open>gds\<close> what \<^verbatim>\<open>gdstk.read_gds\<close> returns for a path
  (\<open>None\<close> where it raises).
\<close>

datatype error = OpenError | LoadError | WriteError | ValueError

datatype stream = Stdout | File nat

record world =
  files :: "string \<rightharpoonup> string list"
  handles :: "(string \<times> bool) list"
  console :: "string list"
  console_closed :: bool
  quota :: "nat option"
  openable :: "string \<Rightarrow> bool"
  gds :: "string \<rightharpoonup> library"

type_synonym 'a io = "world \<Rightarrow> (error + 'a) \<times> world"

definition returnM :: "'a \<Rightarrow> 'a io" where
  "returnM x w = (Inr x, w)"

definition bindM :: "'a io \<Rightarrow> ('a \<Rightarrow> 'b io) \<Rightarrow> 'b io" where
  "bindM m f w = (case m w of (Inl e, w') \<Rightarrow> (Inl e, w') | (Inr x, w') \<Rightarrow> f x w')"

text \<open>A block of statements, and a \<^verbatim>\<open>for\<close> loop over a list.\<close>

fun do_all :: "unit io list \<Rightarrow> unit io" where
  "do_all [] = returnM ()"
| "do_all (m # ms) = bindM m (\<lambda>_. do_all ms)"

fun for_each :: "('a \<Rightarrow> unit io) \<Rightarrow> 'a list \<Rightarrow> unit io" where
  "for_each f [] = returnM ()"
| "for_each f (x # xs) = bindM (f x) (\<lambda>_. for_each f xs)"

text \<open>
  \<^verbatim>\<open>try: body finally: fin\<close>: the final block runs whatever the body did; the body's
  outcome stands unless the final block itself raises.
\<close>

definition try_finally :: "'a io \<Rightarrow> unit io \<Rightarrow> 'a io" where
  "try_finally body fin w =
     (case body w of (r, w') \<Rightarrow>
        (case fin w' of (Inl e, w'') \<Rightarrow> (Inl e, w'') | (Inr _, w'') \<Rightarrow> (r, w'')))"

definition is_open :: "world \<Rightarrow> stream \<Rightarrow> bool" where
  "is_open w out =
     (case out of Stdout \<Rightarrow> \<not> console_closed w
      | File h \<Rightarrow> h < length (handles w) \<and> snd (handles w ! h))"

definition content :: "world \<Rightarrow> stream \<Rightarrow> string list" where
  "content w out =
     (case out of Stdout \<Rightarrow> console w
      | File h \<Rightarrow>
          (if h < length (handles w)
           then (case files w (fst (handles w ! h)) of None \<Rightarrow> [] | Some xs \<Rightarrow> xs)
           else []))"

definition append_chunks :: "stream \<Rightarrow> string list \<Rightarrow> world \<Rightarrow> world" where
  "append_chunks out ls w =
     (case out of Stdout \<Rightarrow> w\<lparr>console := console w @ ls\<rparr>
      | File h \<Rightarrow>
          (if h < length (handles w)
           then w\<lparr>files := (files w)(fst (handles w ! h) \<mapsto> content w out @ ls)\<rparr>
           else w))"

text \<open>
  \<^verbatim>\<open>print(text, file=output)\<close>: a closed stream raises \<^verbatim>\<open>ValueError\<close>, a failing write
  raises and leaves the stream as it was, a successful one appends the chunk.
\<close>

definition print_to :: "stream \<Rightarrow> string \<Rightarrow> unit io" where
  "print_to out s w =
     (if \<not> is_open w out then (Inl ValueError, w)
      else (case quota w of
              None \<Rightarrow> (Inr (), append_chunks out [s] w)
            | Some n \<Rightarrow>
                (if n = 0 then (Inl WriteError, w)
                 else (Inr (), append_chunks out [s] (w\<lparr>quota := Some (n - 1)\<rparr>)))))"

text \<open>\<^verbatim>\<open>open(path, 'w')\<close> creates or truncates the file and returns a new file object.\<close>

definition open_w :: "string \<Rightarrow> stream io" where
  "open_w p w =
     (if openable w p
      then (Inr (File (length (handles w))),
            w\<lparr>files := (files w)(p \<mapsto> []), handles := handles w @ [(p, True)]\<rparr>)
      else (Inl OpenError, w))"

definition close_stream :: "stream \<Rightarrow> unit io" where
  "close_stream out w =
     (case out of Stdout \<Rightarrow> (Inr (), w\<lparr>console_closed := True\<rparr>)
      | File h \<Rightarrow>
          (if h < length (handles w)
           then (Inr (), w\<lparr>handles := (handles w)[h := (fst (handles w ! h), False)]\<rparr>)
           else (Inr (), w)))"

definition read_gds :: "string \<Rightarrow> library io" where
  "read_gds gds_file w =
     (case gds w gds_file of None \<Rightarrow> (Inl LoadError, w) | Some library \<Rightarrow> (Inr library, w))"

subsection \<open>The dump, statement by statement\<close>

text \<open>The body of \<^verbatim>\<open>for poly in cell.polygons\<close>, lines 36 to 38.\<close>

definition dump_polygon :: "stream \<Rightarrow> polygon \<Rightarrow> unit io" where
  "dump_polygon output poly =
     do_all
      [print_to output (''    Polygon - Layer '' @ str_int (polygon_layer poly) @
                        '', datatype '' @ str_int (polygon_datatype poly)),
       print_to output (''      Points: '' @ polygon_points poly)]"

text \<open>The body of \<^verbatim>\<open>for path in cell.paths\<close>, lines 40 to 52.\<close>

definition dump_path :: "stream \<Rightarrow> path \<Rightarrow> unit io" where
  "dump_path output path =
     do_all
      [(case path_layering path of
          Layers ls ds \<Rightarrow>
            print_to output (''    Path - Layers '' @ ls @ '', datatypes '' @ ds)
        | Layer l d \<Rightarrow>
            print_to output (''    Path - Layer '' @ str_int l @ '', datatype '' @ str_int d)),
       (case path_spine path of
          Some sp \<Rightarrow> print_to output (''      Spine points: '' @ sp)
        | None \<Rightarrow>
            (case path_points path of
               Some pts \<Rightarrow> print_to output (''      Points: '' @ pts)
             | None \<Rightarrow> returnM ()))]"

text \<open>The body of \<^verbatim>\<open>for label in cell.labels\<close>, lines 54 to 56.\<close>

definition dump_label :: "stream \<Rightarrow> label \<Rightarrow> unit io" where
  "dump_label output label =
     do_all
      [print_to output (''    Label - Layer '' @ str_int (label_layer label) @
                        '', texttype '' @ str_int (label_texttype label)),
       print_to output (''      Text: '' @ label_text label @ '', Origin: '' @ label_origin label)]"

text \<open>The body of \<^verbatim>\<open>for ref in cell.references\<close>, lines 58 to 67.\<close>

definition dump_reference :: "stream \<Rightarrow> reference \<Rightarrow> unit io" where
  "dump_reference output ref =
     do_all
      [(case ref_cell ref of
          NoCellAttr \<Rightarrow> returnM ()
        | CellNone \<Rightarrow> print_to output (''    Reference to cell: '' @ ''Unknown'')
        | CellObj name \<Rightarrow> print_to output (''    Reference to cell: '' @ name)),
       print_to output (''      Origin: '' @ ref_origin ref),
       print_to output (''      Rotation: '' @ ref_rotation ref @ '' degrees''),
       print_to output (''      Magnification: '' @ ref_magnification ref),
       print_to output (''      X-reflection: '' @ str_bool (ref_x_reflection ref)),
       (case ref_array ref of
          None \<Rightarrow> returnM ()
        | Some a \<Rightarrow>
            (if columns a > 1
             then do_all
               [print_to output (''      Array: '' @ str_int (columns a) @ '' columns x '' @
                                 str_int (rows a) @ '' rows''),
                print_to output (''      Spacing: '' @ spacing a)]
             else returnM ()))]"

text \<open>The body of \<^verbatim>\<open>for cell in library.cells\<close>, lines 29 to 69.\<close>

definition dump_cell :: "stream \<Rightarrow> cell \<Rightarrow> unit io" where
  "dump_cell output cell =
     do_all
      [print_to output (''Cell: '' @ cell_name cell),
       print_to output (''  Polygons: '' @ str_int (int (length (polygons cell)))),
       print_to output (''  Paths: '' @ str_int (int (length (paths cell)))),
       print_to output (''  Labels: '' @ str_int (int (length (labels cell)))),
       print_to output (''  References: '' @ str_int (int (length (references cell)))),
       for_each (dump_polygon output) (polygons cell),
       for_each (dump_path output) (paths cell),
       for_each (dump_label output) (labels cell),
       for_each (dump_reference output) (references cell),
       print_to output []]"

text \<open>Lines 24 to 69: everything printed once the library is loaded.\<close>

definition dump_library :: "stream \<Rightarrow> library \<Rightarrow> unit io" where
  "dump_library output library =
     do_all
      [print_to output (''Library: '' @ lib_name library),
       print_to output (''Number of cells: '' @ str_int (int (length (cells library)))),
       print_to output (''Cells: '' @ repr_str_list (map cell_name (cells library))),
       print_to output [],
       for_each (dump_cell output) (cells library)]"

text \<open>
  \<^verbatim>\<open>inspect_gds(gds_file, log_file=None)\<close>. \<^verbatim>\<open>if log_file\<close> is false for \<^verbatim>\<open>None\<close> and for
  the empty string. The file is opened before the \<^verbatim>\<open>try\<close>, so a failing \<^verbatim>\<open>open\<close>
  leaves nothing to close.
\<close>

definition truthy :: "string option \<Rightarrow> bool" where
  "truthy log_file = (case log_file of None \<Rightarrow> False | Some p \<Rightarrow> p \<noteq> [])"

definition set_up_output :: "string option \<Rightarrow> stream io" where
  "set_up_output log_file =
     (case log_file of
        None \<Rightarrow> returnM Stdout
      | Some p \<Rightarrow> (if p \<noteq> [] then open_w p else returnM Stdout))"

definition inspect_gds :: "string \<Rightarrow> string option \<Rightarrow> unit io" where
  "inspect_gds gds_file log_file =
     bindM (set_up_output log_file) (\<lambda>output.
       try_finally
         (bindM (read_gds gds_file) (\<lambda>library. dump_library output library))
         (if truthy log_file \<and> output \<noteq> Stdout then close_stream output else returnM ()))"

subsection \<open>The report, in the order the specification gives\<close>

text \<open>
  The chunks of a full report as a list: the library's name, the number of cells, the list
  of cell names and an empty line; then for each cell, in the order of the library, its
  name and four counts, the lines of each polygon, of each path, of each label and of each
  reference, and an empty line.
\<close>

definition polygon_lines :: "polygon \<Rightarrow> string list" where
  "polygon_lines p =
     [''    Polygon - Layer '' @ str_int (polygon_layer p) @
        '', datatype '' @ str_int (polygon_datatype p),
      ''      Points: '' @ polygon_points p]"

definition path_lines :: "path \<Rightarrow> string list" where
  "path_lines p =
     [case path_layering p of
        Layers ls ds \<Rightarrow> ''    Path - Layers '' @ ls @ '', datatypes '' @ ds
      | Layer l d \<Rightarrow> ''    Path - Layer '' @ str_int l @ '', datatype '' @ str_int d] @
     (case path_spine p of
        Some sp \<Rightarrow> [''      Spine points: '' @ sp]
      | None \<Rightarrow> (case path_points p of Some pts \<Rightarrow> [''      Points: '' @ pts] | None \<Rightarrow> []))"

definition label_lines :: "label \<Rightarrow> string list" where
  "label_lines l =
     [''    Label - Layer '' @ str_int (label_layer l) @
        '', texttype '' @ str_int (label_texttype l),
      ''      Text: '' @ label_text l @ '', Origin: '' @ label_origin l]"

definition target_lines :: "reference \<Rightarrow> string list" where
  "target_lines r =
     (case ref_cell r of
        NoCellAttr \<Rightarrow> []
      | CellNone \<Rightarrow> [''    Reference to cell: Unknown'']
      | CellObj name \<Rightarrow> [''    Reference to cell: '' @ name])"

definition transform_lines :: "reference \<Rightarrow> string list" where
  "transform_lines r =
     [''      Origin: '' @ ref_origin r,
      ''      Rotation: '' @ ref_rotation r @ '' degrees'',
      ''      Magnification: '' @ ref_magnification r,
      ''      X-reflection: '' @ str_bool (ref_x_reflection r)]"

definition array_lines :: "reference \<Rightarrow> string list" where
  "array_lines r =
     (case ref_array r of
        None \<Rightarrow> []
      | Some a \<Rightarrow>
          (if 1 < columns a
           then [''      Array: '' @ str_int (columns a) @ '' columns x '' @
                   str_int (rows a) @ '' rows'',
                 ''      Spacing: '' @ spacing a]
           else []))"

definition reference_lines :: "reference \<Rightarrow> string list" where
  "reference_lines r = target_lines r @ transform_lines r @ array_lines r"

definition cell_report :: "cell \<Rightarrow> string list" where
  "cell_report cl =
     [''Cell: '' @ cell_name cl,
      ''  Polygons: '' @ str_int (int (length (polygons cl))),
      ''  Paths: '' @ str_int (int (length (paths cl))),
      ''  Labels: '' @ str_int (int (length (labels cl))),
      ''  References: '' @ str_int (int (length (references cl)))] @
     concat (map polygon_lines (polygons cl)) @
     concat (map path_lines (paths cl)) @
     concat (map label_lines (labels cl)) @
     concat (map reference_lines (references cl)) @
     [[]]"

definition report :: "library \<Rightarrow> string list" where
  "report lib =
     [''Library: '' @ lib_name lib,
      ''Number of cells: '' @ str_int (int (length (cells lib))),
      ''Cells: '' @ repr_str_list (map cell_name (cells lib)),
      []] @
     concat (map cell_report (cells lib))"





definition opened :: "string \<Rightarrow> world \<Rightarrow> world" where
  "opened p w = w\<lparr>files := (files w)(p \<mapsto> []), handles := handles w @ [(p, True)]\<rparr>"



subsection \<open>A small drawing\<close>

text \<open>
  The scenarios of the specification in one library: a cell \<open>TOP\<close> with one polygon on
  layer 1, datatype 0, and a reference without a target, arrayed in 3 columns and 2 rows.
  The only path that loads is \<open>top.gds\<close>; the only file that can be opened for writing
  is \<open>out.log\<close>.
\<close>

definition example_reference :: reference where
  "example_reference =
     \<lparr>ref_cell = CellNone, ref_origin = ''(5.0, 0.0)'', ref_rotation = ''0.0'',
      ref_magnification = ''1.0'', ref_x_reflection = False,
      ref_array = Some \<lparr>columns = 3, rows = 2, spacing = ''(10.0, 20.0)''\<rparr>\<rparr>"

definition example_library :: library where
  "example_library =
     \<lparr>lib_name = ''LIB'',
      cells =
        [\<lparr>cell_name = ''TOP'',
          polygons = [\<lparr>polygon_layer = 1, polygon_datatype = 0,
                       polygon_points = ''[(0, 0), (10, 0), (10, 10), (0, 10)]''\<rparr>],
          paths = [], labels = [],
          references = [example_reference]\<rparr>]\<rparr>"

definition example_world :: world where
  "example_world =
     \<lparr>files = Map.empty, handles = [], console = [''earlier output''], console_closed = False,
      quota = None, openable = (\<lambda>p. p = ''out.log''),
      gds = [''top.gds'' \<mapsto> example_library]\<rparr>"

section \<open>Properties of the grid placement\<close>

subsection \<open>One call of the closure\<close>

lemma add_row:
  "row (add_component_to_grid g d l s) = (if col s + 1 \<ge> max_cols g then row s + 1 else row s)"
  by (simp add: add_component_to_grid_def Let_def)

lemma add_col:
  "col (add_component_to_grid g d l s) = (if col s + 1 \<ge> max_cols g then 0 else col s + 1)"
  by (simp add: add_component_to_grid_def Let_def)

lemma add_refs:
  "c_refs (add_component_to_grid g d l s) =
     c_refs s @
       [\<lparr>target = d, pos = (x_start g + col s * x_spacing g, y_start g - row s * y_spacing g)\<rparr>,
        \<lparr>target = Text l 10 (1, 0),
         pos = (x_start g + col s * x_spacing g - 50, y_start g - row s * y_spacing g - 40)\<rparr>]"
  by (simp add: add_component_to_grid_def Let_def insert_moved_def)

lemma add_inv: "cursor_inv g s \<Longrightarrow> cursor_inv g (add_component_to_grid g d l s)"
  by (auto simp: cursor_inv_def add_col)

lemma force_inv: "cursor_inv g s \<Longrightarrow> cursor_inv g (force_new_row s)"
  by (auto simp: cursor_inv_def force_new_row_def)

lemma fresh_inv: "0 < max_cols g \<Longrightarrow> cursor_inv g fresh"
  by (simp add: cursor_inv_def fresh_def)

subsection \<open>Runs of calls\<close>

lemma place_all_append: "place_all g (xs @ ys) s = place_all g ys (place_all g xs s)"
  by (induction xs arbitrary: s) simp_all

lemma place_all_inv: "cursor_inv g s \<Longrightarrow> cursor_inv g (place_all g xs s)"
  by (induction xs arbitrary: s) (simp_all add: add_inv)

text \<open>
  The cursor after a run, from any state that satisfies the invariant: the column counts
  the calls modulo the row width, the row counts the wraps.
\<close>

lemma place_all_cursor:
  "cursor_inv g s \<Longrightarrow>
     row (place_all g xs s) = row s + (col s + int (length xs)) div max_cols g \<and>
     col (place_all g xs s) = (col s + int (length xs)) mod max_cols g"
proof (induction xs arbitrary: s)
  case Nil
  then show ?case by (simp add: cursor_inv_def)
next
  case (Cons x xs)
  let ?m = "max_cols g"
  let ?t = "add_component_to_grid g (fst x) (snd x) s"
  have inv: "cursor_inv g ?t" using Cons.prems by (rule add_inv)
  have m: "0 < ?m" "0 \<le> col s" "col s < ?m" using Cons.prems by (auto simp: cursor_inv_def)
  note IH = Cons.IH [OF inv]
  show ?case
  proof (cases "col s + 1 \<ge> ?m")
    case True
    then have e: "col s + 1 = ?m" using m by simp
    have eq: "col s + int (length (x # xs)) = int (length xs) + ?m" using e by simp
    have d: "(int (length xs) + ?m) div ?m = int (length xs) div ?m + 1"
      using m(1) div_add_self2 [of "?m" "int (length xs)"] by simp
    have r: "(int (length xs) + ?m) mod ?m = int (length xs) mod ?m"
      by simp
    have t: "row ?t = row s + 1" "col ?t = 0" using True by (simp_all add: add_row add_col)
    show ?thesis unfolding place_all.simps eq d r using IH t by simp
  next
    case False
    then show ?thesis using IH by (simp add: add_row add_col add.assoc add.commute add.left_commute)
  qed
qed

lemma place_all_fresh_cursor:
  assumes "0 < max_cols g"
  shows "cell_of (place_all g xs fresh) =
           (int (length xs) div max_cols g, int (length xs) mod max_cols g)"
  using place_all_cursor [OF fresh_inv [OF assms], of xs]
  by (simp add: cell_of_def fresh_def)

lemma place_all_refs_targets:
  "map target (c_refs (place_all g xs s)) =
     map target (c_refs s) @ concat (map (\<lambda>x. [fst x, Text (snd x) 10 (1, 0)]) xs)"
  by (induction xs arbitrary: s) (simp_all add: add_refs)

lemma place_all_refs_grow:
  "\<exists>ys. c_refs (place_all g xs s) = c_refs s @ ys \<and> length ys = 2 * length xs"
proof (induction xs arbitrary: s)
  case Nil
  then show ?case by simp
next
  case (Cons x xs)
  obtain ys where ys: "c_refs (place_all g xs (add_component_to_grid g (fst x) (snd x) s)) =
      c_refs (add_component_to_grid g (fst x) (snd x) s) @ ys" "length ys = 2 * length xs"
    using Cons.IH by blast
  show ?case using ys by (simp add: add_refs)
qed

text \<open>
  The reference that call number \<open>k\<close> inserts for its component stays where it was put:
  later calls only append.
\<close>

lemma place_all_nth_item:
  assumes "k < length items"
  shows "c_refs (place_all g items s) ! (length (c_refs s) + 2 * k) =
           \<lparr>target = fst (items ! k),
            pos = (x_start g + col (place_all g (take k items) s) * x_spacing g,
                   y_start g - row (place_all g (take k items) s) * y_spacing g)\<rparr>"
proof -
  let ?a = "place_all g (take k items) s"
  let ?b = "add_component_to_grid g (fst (items ! k)) (snd (items ! k)) ?a"
  have split: "items = take k items @ items ! k # drop (Suc k) items"
    using assms by (simp add: id_take_nth_drop)
  have "place_all g items s = place_all g (take k items @ items ! k # drop (Suc k) items) s"
    using split by simp
  then have run: "place_all g items s = place_all g (drop (Suc k) items) ?b"
    by (simp only: place_all_append place_all.simps)
  obtain ys where ys: "c_refs ?a = c_refs s @ ys" "length ys = 2 * length (take k items)"
    using place_all_refs_grow [of g "take k items" s] by blast
  obtain zs where zs: "c_refs (place_all g (drop (Suc k) items) ?b) = c_refs ?b @ zs"
    using place_all_refs_grow [of g "drop (Suc k) items" ?b] by blast
  have len: "length (c_refs ?a) = length (c_refs s) + 2 * k"
    using ys assms by simp
  have "c_refs (place_all g items s) ! (length (c_refs ?a)) = c_refs ?b ! (length (c_refs ?a))"
    unfolding run zs by (simp add: nth_append add_refs)
  also have "\<dots> = \<lparr>target = fst (items ! k),
            pos = (x_start g + col ?a * x_spacing g, y_start g - row ?a * y_spacing g)\<rparr>"
    by (simp add: add_refs)
  finally show ?thesis using len by simp
qed

text \<open>
  Claim C1. On a fresh cursor with a positive row width \<open>m\<close>, and with no forced row break
  in between, call number \<open>k\<close> (counted from 0) finds the cursor at row \<open>k div m\<close> and column
  \<open>k mod m\<close>, and its component is placed at
  \<open>(x_start + (k mod m) * x_spacing, y_start - (k div m) * y_spacing)\<close>. The component of
  call \<open>k\<close> is reference number \<open>2 * k\<close> of the drawing, its caption the next one.
\<close>

theorem grid_positions:
  assumes "0 < max_cols g" and "k < length items"
  shows "cell_of (place_all g (take k items) fresh) = (int k div max_cols g, int k mod max_cols g) \<and>
         c_refs (place_all g items fresh) ! (2 * k) =
           \<lparr>target = fst (items ! k),
            pos = (x_start g + (int k mod max_cols g) * x_spacing g,
                   y_start g - (int k div max_cols g) * y_spacing g)\<rparr>"
proof -
  have cur: "cell_of (place_all g (take k items) fresh) = (int k div max_cols g, int k mod max_cols g)"
    using place_all_fresh_cursor [OF assms(1), of "take k items"] assms(2) by simp
  have "c_refs (place_all g items fresh) ! (length (c_refs fresh) + 2 * k) =
           \<lparr>target = fst (items ! k),
            pos = (x_start g + col (place_all g (take k items) fresh) * x_spacing g,
                   y_start g - row (place_all g (take k items) fresh) * y_spacing g)\<rparr>"
    using assms(2) by (rule place_all_nth_item)
  then show ?thesis using cur by (simp add: cell_of_def fresh_def)
qed

text \<open>
  The scenario of the specification: five placements with four columns land in the cells
  (0,0), (0,1), (0,2), (0,3), (1,0); with the pitch of the showcase these are the points
  (0,0), (300,0), (600,0), (900,0), (0,-100).
\<close>

theorem grid_positions_witness:
  "0 < max_cols showcase_grid \<and> length (take 5 catalogue) = 5 \<and>
   map (\<lambda>k. cell_of (place_all showcase_grid (take k (take 5 catalogue)) fresh)) [0, 1, 2, 3, 4::nat]
     = [(0, 0), (0, 1), (0, 2), (0, 3), (1, 0)] \<and>
   map (\<lambda>k. pos (c_refs (place_all showcase_grid (take 5 catalogue) fresh) ! (2 * k))) [0, 1, 2, 3, 4::nat]
     = [(0, 0), (300, 0), (600, 0), (900, 0), (0, - 100)]"
  using grid_positions [of showcase_grid 0 "take 5 catalogue"]
    grid_positions [of showcase_grid 1 "take 5 catalogue"]
    grid_positions [of showcase_grid 2 "take 5 catalogue"]
    grid_positions [of showcase_grid 3 "take 5 catalogue"]
    grid_positions [of showcase_grid 4 "take 5 catalogue"]
  by (simp add: showcase_grid_def catalogue_def)

subsection \<open>Any interleaving of placements and forced row breaks\<close>

lemma apply_op_inv: "cursor_inv g s \<Longrightarrow> cursor_inv g (apply_op g x s)"
  by (cases x) (simp_all add: add_inv force_inv)

lemma run_ops_inv: "cursor_inv g s \<Longrightarrow> cursor_inv g (run_ops g ops s)"
  by (induction ops arbitrary: s) (simp_all add: apply_op_inv)

lemma apply_op_row: "row s \<le> row (apply_op g x s)"
  by (cases x) (simp_all add: add_row force_new_row_def)

lemma run_ops_row: "row s \<le> row (run_ops g ops s)"
proof (induction ops arbitrary: s)
  case Nil
  show ?case by simp
next
  case (Cons x ops)
  have "row s \<le> row (apply_op g x s)" by (rule apply_op_row)
  also have "\<dots> \<le> row (run_ops g ops (apply_op g x s))" by (rule Cons.IH)
  finally show ?case by simp
qed

lemma run_ops_append: "run_ops g (xs @ ys) s = run_ops g ys (run_ops g xs s)"
  by (induction xs arbitrary: s) simp_all

text \<open>
  Claim C2. Each operation on the cursor, a placement or a forced row break, keeps
  \<open>0 \<le> col < max_cols\<close>, and so does every sequence of them; from a fresh cursor with a
  positive row width the invariant holds after every sequence. The row never decreases:
  not in one operation, and not between any two points of a sequence.
\<close>

theorem cursor_invariant:
  "(cursor_inv g s \<longrightarrow> cursor_inv g (apply_op g x s) \<and> cursor_inv g (run_ops g ops s)) \<and>
   (0 < max_cols g \<longrightarrow> cursor_inv g (run_ops g ops fresh)) \<and>
   row s \<le> row (apply_op g x s) \<and>
   row (run_ops g ops s) \<le> row (run_ops g (ops @ more_ops) s)"
proof -
  have "row (run_ops g ops s) \<le> row (run_ops g more_ops (run_ops g ops s))"
    by (rule run_ops_row)
  then have "row (run_ops g ops s) \<le> row (run_ops g (ops @ more_ops) s)"
    by (simp only: run_ops_append)
  then show ?thesis
    by (simp add: apply_op_inv run_ops_inv fresh_inv apply_op_row)
qed

theorem cursor_invariant_witness:
  "cursor_inv showcase_grid fresh \<and>
   cursor_inv showcase_grid (apply_op showcase_grid ForceNewRow fresh) \<and>
   run_ops showcase_grid
     [Place (Component ''a'') ''A'', ForceNewRow, Place (Component ''b'') ''B''] fresh
     = \<lparr>c_refs = [\<lparr>target = Component ''a'', pos = (0, 0)\<rparr>,
                  \<lparr>target = Text ''A'' 10 (1, 0), pos = (- 50, - 40)\<rparr>,
                  \<lparr>target = Component ''b'', pos = (0, - 100)\<rparr>,
                  \<lparr>target = Text ''B'' 10 (1, 0), pos = (- 50, - 140)\<rparr>],
        row = 1, col = 1\<rparr> \<and>
   cursor_inv showcase_grid (run_ops showcase_grid
     [Place (Component ''a'') ''A'', ForceNewRow, Place (Component ''b'') ''B''] fresh)"
  using cursor_invariant [of showcase_grid fresh ForceNewRow
      "[Place (Component ''a'') ''A'', ForceNewRow, Place (Component ''b'') ''B'']" "[]"]
  by (simp add: showcase_grid_def fresh_def cursor_inv_def add_component_to_grid_def
      force_new_row_def insert_moved_def)

text \<open>
  Claim C3. The forced row break leaves row and column as they are exactly when the
  column is 0; otherwise it adds one to the row and sets the column to 0. It never touches
  the drawing, and doing it twice is the same as doing it once.
\<close>

theorem force_new_row_cases:
  "((row (force_new_row s) = row s \<and> col (force_new_row s) = col s) \<longleftrightarrow> col s = 0) \<and>
   (force_new_row s = s \<longleftrightarrow> col s = 0) \<and>
   (col s \<noteq> 0 \<longrightarrow> row (force_new_row s) = row s + 1 \<and> col (force_new_row s) = 0) \<and>
   c_refs (force_new_row s) = c_refs s \<and>
   force_new_row (force_new_row s) = force_new_row s"
proof -
  have "s\<lparr>row := row s + 1, col := 0\<rparr> \<noteq> s" if "col s \<noteq> 0"
  proof
    assume "s\<lparr>row := row s + 1, col := 0\<rparr> = s"
    then have "col (s\<lparr>row := row s + 1, col := 0\<rparr>) = col s" by simp
    then show False using that by simp
  qed
  then show ?thesis by (auto simp: force_new_row_def)
qed

theorem force_new_row_cases_witness:
  "force_new_row \<lparr>c_refs = [], row = 7, col = 2\<rparr> = \<lparr>c_refs = [], row = 8, col = 0\<rparr> \<and>
   force_new_row \<lparr>c_refs = [], row = 8, col = 0\<rparr> = \<lparr>c_refs = [], row = 8, col = 0\<rparr> \<and>
   force_new_row (force_new_row \<lparr>c_refs = [], row = 7, col = 2\<rparr>)
     = force_new_row \<lparr>c_refs = [], row = 7, col = 2\<rparr>"
  using force_new_row_cases [of "\<lparr>c_refs = [], row = 7, col = 2\<rparr>"]
    force_new_row_cases [of "\<lparr>c_refs = [], row = 8, col = 0\<rparr>"]
  by (simp add: force_new_row_def)

subsection \<open>Captions\<close>

lemma showcase_cursor:
  "cell_of (place_all showcase_grid catalogue fresh) = (7, 2)"
proof -
  have "0 < max_cols showcase_grid" by (simp add: showcase_grid_def)
  then have "cell_of (place_all showcase_grid catalogue fresh) =
      (int (length catalogue) div max_cols showcase_grid,
       int (length catalogue) mod max_cols showcase_grid)"
    by (rule place_all_fresh_cursor)
  moreover have "length catalogue = 30" by (simp add: catalogue_def)
  ultimately show ?thesis by (simp add: showcase_grid_def)
qed

text \<open>
  Claim C4. Every call of the closure appends two references: the component at the point
  computed from the cursor, and its caption at that same point moved by 50 to the left and
  40 down. The spiral, placed by its own statements, gets its caption in the same way; in
  the showcase the spiral is at (0, -800) and its caption at (-50, -840).
\<close>

theorem caption_offset:
  "c_refs (add_component_to_grid g d l s) =
     c_refs s @
       [\<lparr>target = d, pos = (x_start g + col s * x_spacing g, y_start g - row s * y_spacing g)\<rparr>,
        \<lparr>target = Text l 10 (1, 0),
         pos = (x_start g + col s * x_spacing g - 50, y_start g - row s * y_spacing g - 40)\<rparr>] \<and>
   c_refs (place_spiral g s) =
     c_refs s @
       [\<lparr>target = Component ''spiral'',
         pos = (x_start g + col s * x_spacing g, y_start g - row s * y_spacing g)\<rparr>,
        \<lparr>target = Text ''Spiral'' 10 (1, 0),
         pos = (x_start g + col s * x_spacing g - 50, y_start g - row s * y_spacing g - 40)\<rparr>] \<and>
   c_refs pic_component_showcase =
     c_refs (place_all showcase_grid catalogue fresh) @
       [\<lparr>target = Component ''spiral'', pos = (0, - 800)\<rparr>,
        \<lparr>target = Text ''Spiral'' 10 (1, 0), pos = (0 - 50, - 800 - 40)\<rparr>]"
proof -
  have "row (place_all showcase_grid catalogue fresh) = 7"
      "col (place_all showcase_grid catalogue fresh) = 2"
    using showcase_cursor by (simp_all add: cell_of_def)
  then have "c_refs pic_component_showcase =
     c_refs (place_all showcase_grid catalogue fresh) @
       [\<lparr>target = Component ''spiral'', pos = (0, - 800)\<rparr>,
        \<lparr>target = Text ''Spiral'' 10 (1, 0), pos = (0 - 50, - 800 - 40)\<rparr>]"
    by (simp add: pic_component_showcase_def place_spiral_def force_new_row_def
        insert_moved_def Let_def showcase_grid_def)
  then show ?thesis
    by (simp add: add_refs place_spiral_def insert_moved_def Let_def)
qed

subsection \<open>Order of placement\<close>

text \<open>
  Claim C5. Take any cursor that satisfies the invariant and any run of calls. The cell
  that call \<open>i + 1\<close> uses (the cursor after \<open>i + 1\<close> calls) is lexicographically greater
  than the cell that call \<open>i\<close> used, and it is the next cell of the grid: one column to the
  right in the same row, or column 0 of the next row when call \<open>i\<close> was in the last column.
  The drawing lists the components and captions in the order of the calls.
\<close>

theorem one_cell_per_call:
  assumes "cursor_inv g s" and "i < length items"
  shows "cell_less (cell_of (place_all g (take i items) s))
                   (cell_of (place_all g (take (Suc i) items) s)) \<and>
         cell_of (place_all g (take (Suc i) items) s) =
           (if col (place_all g (take i items) s) = max_cols g - 1
            then (row (place_all g (take i items) s) + 1, 0)
            else (row (place_all g (take i items) s), col (place_all g (take i items) s) + 1)) \<and>
         map target (c_refs (place_all g items s)) =
           map target (c_refs s) @ concat (map (\<lambda>x. [fst x, Text (snd x) 10 (1, 0)]) items)"
proof -
  let ?a = "place_all g (take i items) s"
  have "take (Suc i) items = take i items @ [items ! i]"
    using assms(2) by (simp add: take_Suc_conv_app_nth)
  then have b: "place_all g (take (Suc i) items) s =
      add_component_to_grid g (fst (items ! i)) (snd (items ! i)) ?a"
    by (simp add: place_all_append)
  have inv: "cursor_inv g ?a" using assms(1) by (rule place_all_inv)
  have "cell_less (cell_of ?a) (cell_of (place_all g (take (Suc i) items) s))"
    unfolding b by (simp add: cell_less_def cell_of_def add_row add_col)
  moreover have "cell_of (place_all g (take (Suc i) items) s) =
           (if col ?a = max_cols g - 1 then (row ?a + 1, 0) else (row ?a, col ?a + 1))"
    unfolding b using inv by (auto simp: cell_of_def add_row add_col cursor_inv_def)
  ultimately show ?thesis by (simp add: place_all_refs_targets)
qed

theorem one_cell_per_call_witness:
  "cursor_inv showcase_grid fresh \<and> 3 < length (take 5 catalogue) \<and>
   cell_of (place_all showcase_grid (take 3 (take 5 catalogue)) fresh) = (0, 3) \<and>
   cell_of (place_all showcase_grid (take (Suc 3) (take 5 catalogue)) fresh) = (1, 0) \<and>
   cell_less (0, 3) (1, 0) \<and>
   map target (c_refs (place_all showcase_grid (take 5 catalogue) fresh)) =
     [Component ''detector'', Text ''Ge Photodetector'' 10 (1, 0),
      Component ''heater_metal'', Text ''Metal Heater'' 10 (1, 0),
      Component ''modulator_pn'', Text ''PN Modulator'' 10 (1, 0),
      Component ''modulator_pin'', Text ''PIN Modulator'' 10 (1, 0),
      Component ''disk_heater'', Text ''Disk Heater'' 10 (1, 0)]"
  using one_cell_per_call [of showcase_grid fresh 3 "take 5 catalogue"]
  by (simp add: showcase_grid_def catalogue_def fresh_def cursor_inv_def cell_of_def
      cell_less_def add_component_to_grid_def insert_moved_def)



section \<open>Properties of the dump\<close>

subsection \<open>Sequencing\<close>

lemma bindM_returnM [simp]: "bindM (returnM x) f = f x"
  by (rule ext) (simp add: bindM_def returnM_def)

lemma bindM_returnM_right [simp]: "bindM m returnM = m"
  by (rule ext) (auto simp: bindM_def returnM_def split: prod.splits sum.splits)

lemma bindM_returnM_unit [simp]: "bindM m (\<lambda>_. returnM ()) = (m :: unit io)"
  by (rule ext) (auto simp: bindM_def returnM_def split: prod.splits sum.splits)

lemma bindM_assoc: "bindM (bindM m f) g = bindM m (\<lambda>x. bindM (f x) g)"
  by (rule ext) (auto simp: bindM_def split: prod.splits sum.splits)

lemma for_each_append:
  "for_each f (xs @ ys) = bindM (for_each f xs) (\<lambda>_. for_each f ys)"
  by (induction xs) (simp_all add: bindM_assoc)

lemma for_each_concat:
  assumes "\<And>x. f x = for_each g (h x)"
  shows "for_each f xs = for_each g (concat (map h xs))"
  by (induction xs) (simp_all add: assms for_each_append)

subsection \<open>The dump prints the report\<close>

text \<open>
  Each loop body, and then the whole dump, is the printing of its lines one after the
  other to the same stream.
\<close>

lemma dump_polygon_lines: "dump_polygon out p = for_each (print_to out) (polygon_lines p)"
  by (simp add: dump_polygon_def polygon_lines_def)

lemma dump_label_lines: "dump_label out l = for_each (print_to out) (label_lines l)"
  by (simp add: dump_label_def label_lines_def)

lemma dump_path_lines: "dump_path out p = for_each (print_to out) (path_lines p)"
  by (simp add: dump_path_def path_lines_def split: path_layering.splits option.splits)

lemma dump_reference_lines: "dump_reference out r = for_each (print_to out) (reference_lines r)"
  by (simp add: dump_reference_def reference_lines_def target_lines_def transform_lines_def
      array_lines_def bindM_assoc split: cell_attr.splits option.splits)

lemma dump_cell_lines: "dump_cell out cl = for_each (print_to out) (cell_report cl)"
proof -
  have "dump_cell out cl =
     bindM (for_each (print_to out)
        [''Cell: '' @ cell_name cl,
         ''  Polygons: '' @ str_int (int (length (polygons cl))),
         ''  Paths: '' @ str_int (int (length (paths cl))),
         ''  Labels: '' @ str_int (int (length (labels cl))),
         ''  References: '' @ str_int (int (length (references cl)))])
      (\<lambda>_. bindM (for_each (print_to out) (concat (map polygon_lines (polygons cl))))
      (\<lambda>_. bindM (for_each (print_to out) (concat (map path_lines (paths cl))))
      (\<lambda>_. bindM (for_each (print_to out) (concat (map label_lines (labels cl))))
      (\<lambda>_. bindM (for_each (print_to out) (concat (map reference_lines (references cl))))
      (\<lambda>_. for_each (print_to out) [[]])))))"
    by (simp add: dump_cell_def bindM_assoc
        for_each_concat [of "dump_polygon out" "print_to out" polygon_lines, OF dump_polygon_lines]
        for_each_concat [of "dump_path out" "print_to out" path_lines, OF dump_path_lines]
        for_each_concat [of "dump_label out" "print_to out" label_lines, OF dump_label_lines]
        for_each_concat [of "dump_reference out" "print_to out" reference_lines, OF dump_reference_lines])
  also have "\<dots> = for_each (print_to out) (cell_report cl)"
    unfolding cell_report_def by (simp only: for_each_append)
  finally show ?thesis .
qed

lemma dump_library_lines: "dump_library out lib = for_each (print_to out) (report lib)"
proof -
  have "dump_library out lib =
     bindM (for_each (print_to out)
        [''Library: '' @ lib_name lib,
         ''Number of cells: '' @ str_int (int (length (cells lib))),
         ''Cells: '' @ repr_str_list (map cell_name (cells lib)),
         []])
      (\<lambda>_. for_each (print_to out) (concat (map cell_report (cells lib))))"
    by (simp add: dump_library_def bindM_assoc
        for_each_concat [of "dump_cell out" "print_to out" cell_report, OF dump_cell_lines])
  also have "\<dots> = for_each (print_to out) (report lib)"
    unfolding report_def by (simp only: for_each_append)
  finally show ?thesis .
qed


subsection \<open>Printing a list of chunks\<close>

lemma is_open_append_chunks [simp]: "is_open (append_chunks out ls w) out' = is_open w out'"
  by (simp add: is_open_def append_chunks_def split: stream.splits)

lemma is_open_quota [simp]: "is_open (w\<lparr>quota := q\<rparr>) out = is_open w out"
  by (simp add: is_open_def split: stream.splits)

lemma content_quota [simp]: "content (w\<lparr>quota := q\<rparr>) out = content w out"
  by (simp add: content_def split: stream.splits)


lemma quota_append_chunks [simp]: "quota (append_chunks out ls w) = quota w"
  by (simp add: append_chunks_def split: stream.splits)






text \<open>Frame: printing never opens or closes anything.\<close>

lemma print_to_frame:
  "print_to out l w = (r, w') \<Longrightarrow>
     handles w' = handles w \<and> console_closed w' = console_closed w \<and>
     openable w' = openable w \<and> gds w' = gds w"
  by (auto simp: print_to_def append_chunks_def split: if_splits option.splits stream.splits)

lemma prints_frame:
  "for_each (print_to out) ls w = (r, w') \<Longrightarrow>
     handles w' = handles w \<and> console_closed w' = console_closed w \<and>
     openable w' = openable w \<and> gds w' = gds w"
proof (induction ls arbitrary: w)
  case Nil
  then show ?case by (simp add: returnM_def)
next
  case (Cons l ls)
  obtain r1 w1 where p: "print_to out l w = (r1, w1)" by (cases "print_to out l w")
  note f1 = print_to_frame [OF p]
  show ?case
  proof (cases r1)
    case (Inl e)
    then have "w' = w1" using Cons.prems p by (simp add: bindM_def)
    then show ?thesis using f1 by simp
  next
    case (Inr u)
    then have "for_each (print_to out) ls w1 = (r, w')" using Cons.prems p by (simp add: bindM_def)
    then show ?thesis using Cons.IH f1 by simp
  qed
qed





subsection \<open>The shape of a run of \<^verbatim>\<open>inspect_gds\<close>\<close>

lemma body_frame:
  assumes "bindM (read_gds f) (dump_library out) w = (r, w')"
  shows "handles w' = handles w \<and> console_closed w' = console_closed w \<and>
     openable w' = openable w \<and> gds w' = gds w"
proof (cases "gds w f")
  case None
  then show ?thesis using assms by (simp add: bindM_def read_gds_def)
next
  case (Some lib)
  then have "for_each (print_to out) (report lib) w = (r, w')"
    using assms by (simp add: bindM_def read_gds_def dump_library_lines)
  then show ?thesis by (rule prints_frame)
qed





lemma inspect_log:
  assumes "p \<noteq> []" and "openable w p"
    and "bindM (read_gds f) (dump_library (File (length (handles w)))) (opened p w) = (r, w')"
  shows "inspect_gds f (Some p) w = (r, w'\<lparr>handles := handles w @ [(p, False)]\<rparr>)"
proof -
  let ?n = "length (handles w)"
  have s: "set_up_output (Some p) w = (Inr (File ?n), opened p w)"
    using assms(1,2) by (simp add: set_up_output_def open_w_def opened_def)
  have h: "handles w' = handles w @ [(p, True)]"
    using body_frame [OF assms(3)] by (simp add: opened_def)
  have c: "close_stream (File ?n) w' = (Inr (), w'\<lparr>handles := handles w @ [(p, False)]\<rparr>)"
    by (simp add: close_stream_def h)
  show ?thesis
    using assms(1) by (simp add: inspect_gds_def bindM_def [of "set_up_output (Some p)"] s
        try_finally_def assms(3) truthy_def c)
qed

lemma inspect_no_open:
  assumes "p \<noteq> []" and "\<not> openable w p"
  shows "inspect_gds f (Some p) w = (Inl OpenError, w)"
  using assms by (simp add: inspect_gds_def bindM_def set_up_output_def open_w_def)





subsection \<open>References\<close>












subsection \<open>The log file\<close>



text \<open>
  Claim C9. With a log-file path, the file is opened, and so created or emptied, before
  the load is tried: if it cannot be opened the call ends with that failure and the load
  is never reached; if it can and the load fails, the call ends with the load failure, and
  all that has changed is that the log file exists, holds nothing, and its file object is
  closed.
\<close>

theorem load_failure_leaves_empty_closed_log:
  assumes "p \<noteq> []"
  shows "(openable w p \<and> gds w gds_file = None \<longrightarrow>
            inspect_gds gds_file (Some p) w =
              (Inl LoadError,
               w\<lparr>files := (files w)(p \<mapsto> []), handles := handles w @ [(p, False)]\<rparr>)) \<and>
         (\<not> openable w p \<longrightarrow> inspect_gds gds_file (Some p) w = (Inl OpenError, w))"
proof (intro conjI impI)
  assume a: "openable w p \<and> gds w gds_file = None"
  have b: "bindM (read_gds gds_file) (dump_library (File (length (handles w)))) (opened p w)
      = (Inl LoadError, opened p w)"
    using a by (simp add: bindM_def read_gds_def opened_def)
  have "inspect_gds gds_file (Some p) w =
      (Inl LoadError, (opened p w)\<lparr>handles := handles w @ [(p, False)]\<rparr>)"
    using assms a b by (intro inspect_log) simp_all
  then show "inspect_gds gds_file (Some p) w =
              (Inl LoadError,
               w\<lparr>files := (files w)(p \<mapsto> []), handles := handles w @ [(p, False)]\<rparr>)"
    by (simp add: opened_def)
next
  assume "\<not> openable w p"
  with assms show "inspect_gds gds_file (Some p) w = (Inl OpenError, w)"
    by (rule inspect_no_open)
qed

theorem load_failure_leaves_empty_closed_log_witness:
  "''out.log'' \<noteq> [] \<and> openable example_world ''out.log'' \<and>
   gds example_world ''nope.gds'' = None \<and>
   fst (inspect_gds ''nope.gds'' (Some ''out.log'') example_world) = Inl LoadError \<and>
   files (snd (inspect_gds ''nope.gds'' (Some ''out.log'') example_world)) ''out.log'' = Some [] \<and>
   handles (snd (inspect_gds ''nope.gds'' (Some ''out.log'') example_world)) = [(''out.log'', False)] \<and>
   \<not> openable example_world ''dir/out.log'' \<and>
   inspect_gds ''nope.gds'' (Some ''dir/out.log'') example_world = (Inl OpenError, example_world)"
  using load_failure_leaves_empty_closed_log [of "''out.log''" example_world "''nope.gds''"]
    load_failure_leaves_empty_closed_log [of "''dir/out.log''" example_world "''nope.gds''"]
  by (simp add: example_world_def)

subsection \<open>Determinism and order\<close>






end
